theory Spec2Isabelle
  imports Complex_Main "HOL-Library.Multiset"
begin

section \<open>simple-svg: a shallow embedding of \<^verbatim>\<open>simple_svg_1.0.0.hpp\<close>\<close>

text \<open>
  Conventions of the embedding.
  \<^item> A C++ \<^verbatim>\<open>double\<close> is a \<^typ>\<open>real\<close>: coordinates are finite numbers, comparisons
    are the order of the reals, and the rounding of floating-point arithmetic is not
    modelled.
  \<^item> A C++ \<^verbatim>\<open>int\<close> (the colour channels) is an \<^typ>\<open>int\<close>; no arithmetic is done on it.
  \<^item> A \<^verbatim>\<open>std::vector\<close> is a list, a \<^verbatim>\<open>std::string\<close> is a \<^typ>\<open>string\<close>.
  \<^item> Member functions that mutate their object return the updated object.
  \<^item> Writing a \<^verbatim>\<open>double\<close> to a stream and \<^verbatim>\<open>std::to_string\<close> belong to the standard
    library, not to this header: the functions that print numbers take the conversion as
    a parameter (\<open>fmt\<close> for \<^verbatim>\<open>operator<<\<close>, \<open>to_string\<close> for \<^verbatim>\<open>std::to_string\<close>).
  \<^item> What the header can do besides returning is a value of type \<open>error\<close>.
\<close>

datatype error =
    AbsentValue      \<comment> \<open>the \<^verbatim>\<open>std::exception\<close> thrown by \<^verbatim>\<open>optional::operator->\<close>\<close>
  | UncheckedAccess  \<comment> \<open>\<^verbatim>\<open>front()\<close> or \<^verbatim>\<open>back()\<close> of an empty \<^verbatim>\<open>std::vector\<close>: no check, undefined behaviour\<close>

definition bind_err :: "error + 'a \<Rightarrow> ('a \<Rightarrow> error + 'b) \<Rightarrow> error + 'b" where
  "bind_err m f = (case m of Inl e \<Rightarrow> Inl e | Inr v \<Rightarrow> f v)"

subsection \<open>Utility XML/String functions\<close>

definition attribute :: "string \<Rightarrow> string \<Rightarrow> string \<Rightarrow> string" where
  "attribute attribute_name val unit = attribute_name @ ''=\"'' @ val @ unit @ ''\" ''"

definition elemStart :: "string \<Rightarrow> string" where
  "elemStart element_name = [CHR 0x09] @ ''<'' @ element_name @ '' ''"

definition elemEnd :: "string \<Rightarrow> string" where
  "elemEnd element_name = ''</'' @ element_name @ ''>'' @ [CHR 0x0A]"

definition emptyElemEnd :: string where
  "emptyElemEnd = ''/>'' @ [CHR 0x0A]"

text \<open>Decimal output of an \<^verbatim>\<open>int\<close>, as \<^verbatim>\<open>operator<<\<close> writes it.\<close>

fun show_nat :: "nat \<Rightarrow> string" where
  "show_nat n =
     (if n < 10 then [''0123456789'' ! n]
      else show_nat (n div 10) @ [''0123456789'' ! (n mod 10)])"

definition show_int :: "int \<Rightarrow> string" where
  "show_int i = (if i < 0 then ''-'' @ show_nat (nat (- i)) else show_nat (nat i))"

subsection \<open>The quick optional return type\<close>

record 'a optional =
  valid :: bool
  type :: 'a

text \<open>\<^verbatim>\<open>optional<T>(T const &type)\<close>.\<close>

definition optional_of :: "'a \<Rightarrow> 'a optional" where
  "optional_of v = \<lparr>valid = True, type = v\<rparr>"

text \<open>\<^verbatim>\<open>optional<T>()\<close>; the argument is the default-constructed \<^verbatim>\<open>T()\<close>.\<close>

definition optional_none :: "'a \<Rightarrow> 'a optional" where
  "optional_none dflt = \<lparr>valid = False, type = dflt\<rparr>"

text \<open>\<^verbatim>\<open>operator->\<close>: an exception when the value is invalid.\<close>

definition optional_arrow :: "'a optional \<Rightarrow> error + 'a" where
  "optional_arrow opt = (if \<not> valid opt then Inl AbsentValue else Inr (type opt))"

text \<open>\<^verbatim>\<open>operator!\<close>.\<close>

definition optional_not :: "'a optional \<Rightarrow> bool" where
  "optional_not opt = (\<not> valid opt)"

subsection \<open>Dimensions, Point, Rect\<close>

record Dimensions =
  width :: real
  height :: real

definition Dimensions_combined :: "real \<Rightarrow> Dimensions" where
  "Dimensions_combined combined = \<lparr>width = combined, height = combined\<rparr>"

record Point =
  x :: real
  y :: real

text \<open>\<^verbatim>\<open>Point()\<close>, both coordinates defaulted.\<close>

definition Point_default :: Point where
  "Point_default = \<lparr>x = 0, y = 0\<rparr>"

record Rect =
  minPt :: Point
  maxPt :: Point

text \<open>\<^verbatim>\<open>Rect()\<close>: the member initialisers.\<close>

definition Rect_default :: Rect where
  "Rect_default = \<lparr>minPt = \<lparr>x = 0, y = 0\<rparr>, maxPt = \<lparr>x = 0, y = 0\<rparr>\<rparr>"

text \<open>\<^verbatim>\<open>Rect(const Point &p, double w = 0, double h = 0)\<close>.\<close>

definition Rect_of :: "Point \<Rightarrow> real \<Rightarrow> real \<Rightarrow> Rect" where
  "Rect_of p w h = \<lparr>minPt = p, maxPt = \<lparr>x = x p + w, y = y p + h\<rparr>\<rparr>"

definition Rect_width :: "Rect \<Rightarrow> real" where
  "Rect_width r = x (maxPt r) - x (minPt r)"

definition Rect_height :: "Rect \<Rightarrow> real" where
  "Rect_height r = y (maxPt r) - y (minPt r)"

text \<open>\<^verbatim>\<open>Rect::include(const Point &p)\<close>: four tests, one after the other.\<close>

definition Rect_include_Point :: "Rect \<Rightarrow> Point \<Rightarrow> Rect" where
  "Rect_include_Point r p =
     (let r1 = (if x p < x (minPt r) then r\<lparr>minPt := (minPt r)\<lparr>x := x p\<rparr>\<rparr> else r);
          r2 = (if y p < y (minPt r1) then r1\<lparr>minPt := (minPt r1)\<lparr>y := y p\<rparr>\<rparr> else r1);
          r3 = (if x p > x (maxPt r2) then r2\<lparr>maxPt := (maxPt r2)\<lparr>x := x p\<rparr>\<rparr> else r2);
          r4 = (if y p > y (maxPt r3) then r3\<lparr>maxPt := (maxPt r3)\<lparr>y := y p\<rparr>\<rparr> else r3)
      in r4)"

text \<open>\<^verbatim>\<open>Rect::include(const Rect &r)\<close>.\<close>

definition Rect_include_Rect :: "Rect \<Rightarrow> Rect \<Rightarrow> Rect" where
  "Rect_include_Rect this r = Rect_include_Point (Rect_include_Point this (minPt r)) (maxPt r)"

text \<open>The loop \<^verbatim>\<open>for (auto &pt : points) rtn.include(pt);\<close>.\<close>

definition include_Points :: "Rect \<Rightarrow> Point list \<Rightarrow> Rect" where
  "include_Points rtn pts = fold (\<lambda>pt r. Rect_include_Point r pt) pts rtn"

text \<open>The body of the loop of \<^verbatim>\<open>getMinPoint\<close> and of \<^verbatim>\<open>getMaxPoint\<close>.\<close>

definition getMinPoint_step :: "Point \<Rightarrow> Point \<Rightarrow> Point" where
  "getMinPoint_step p m =
     (let m1 = (if x p < x m then m\<lparr>x := x p\<rparr> else m);
          m2 = (if y p < y m1 then m1\<lparr>y := y p\<rparr> else m1)
      in m2)"

definition getMaxPoint_step :: "Point \<Rightarrow> Point \<Rightarrow> Point" where
  "getMaxPoint_step p m =
     (let m1 = (if x p > x m then m\<lparr>x := x p\<rparr> else m);
          m2 = (if y p > y m1 then m1\<lparr>y := y p\<rparr> else m1)
      in m2)"

definition getMinPoint :: "Point list \<Rightarrow> Point optional" where
  "getMinPoint points =
     (case points of
        [] \<Rightarrow> optional_none Point_default
      | p0 # _ \<Rightarrow> optional_of (fold getMinPoint_step points p0))"

definition getMaxPoint :: "Point list \<Rightarrow> Point optional" where
  "getMaxPoint points =
     (case points of
        [] \<Rightarrow> optional_none Point_default
      | p0 # _ \<Rightarrow> optional_of (fold getMaxPoint_step points p0))"

subsection \<open>Layout and the conversion of coordinates\<close>

datatype Origin = TopLeft | BottomLeft | TopRight | BottomRight

record Layout =
  dimensions :: Dimensions
  scale :: real
  origin :: Origin
  origin_offset :: Point

text \<open>\<^verbatim>\<open>Layout()\<close>, every argument defaulted.\<close>

definition Layout_default :: Layout where
  "Layout_default =
     \<lparr>dimensions = \<lparr>width = 400, height = 300\<rparr>, scale = 1, origin = BottomLeft,
      origin_offset = \<lparr>x = 0, y = 0\<rparr>\<rparr>"

definition translateX :: "real \<Rightarrow> Layout \<Rightarrow> real" where
  "translateX a layout =
     (if origin layout = BottomRight \<or> origin layout = TopRight
      then width (dimensions layout) - ((a + x (origin_offset layout)) * scale layout)
      else (x (origin_offset layout) + a) * scale layout)"

definition translateY :: "real \<Rightarrow> Layout \<Rightarrow> real" where
  "translateY b layout =
     (if origin layout = BottomLeft \<or> origin layout = BottomRight
      then height (dimensions layout) - ((b + y (origin_offset layout)) * scale layout)
      else (y (origin_offset layout) + b) * scale layout)"

definition translateScale :: "real \<Rightarrow> Layout \<Rightarrow> real" where
  "translateScale dimension layout = dimension * scale layout"

subsection \<open>Color, Fill, Stroke, Font\<close>

datatype Defaults =
    Transparent | Aqua | Black | Blue | Brown | Cyan | Fuchsia | Green | Lime | Magenta
  | Orange | Purple | Red | Silver | White | Yellow

record Color =
  transparent :: bool
  red :: int
  green :: int
  blue :: int

text \<open>\<^verbatim>\<open>Color(int r, int g, int b)\<close>.\<close>

definition Color_rgb :: "int \<Rightarrow> int \<Rightarrow> int \<Rightarrow> Color" where
  "Color_rgb r g b = \<lparr>transparent = False, red = r, green = g, blue = b\<rparr>"

text \<open>\<^verbatim>\<open>Color(Defaults color)\<close>: the switch; \<^verbatim>\<open>Transparent\<close> takes the default branch.\<close>

fun Color_of :: "Defaults \<Rightarrow> Color" where
  "Color_of Aqua = Color_rgb 0 255 255"
| "Color_of Black = Color_rgb 0 0 0"
| "Color_of Blue = Color_rgb 0 0 255"
| "Color_of Brown = Color_rgb 165 42 42"
| "Color_of Cyan = Color_rgb 0 255 255"
| "Color_of Fuchsia = Color_rgb 255 0 255"
| "Color_of Green = Color_rgb 0 128 0"
| "Color_of Lime = Color_rgb 0 255 0"
| "Color_of Magenta = Color_rgb 255 0 255"
| "Color_of Orange = Color_rgb 255 165 0"
| "Color_of Purple = Color_rgb 128 0 128"
| "Color_of Red = Color_rgb 255 0 0"
| "Color_of Silver = Color_rgb 192 192 192"
| "Color_of White = Color_rgb 255 255 255"
| "Color_of Yellow = Color_rgb 255 255 0"
| "Color_of Transparent = \<lparr>transparent = True, red = 0, green = 0, blue = 0\<rparr>"

definition Color_toString :: "Color \<Rightarrow> string" where
  "Color_toString c =
     (if transparent c then ''transparent''
      else ''rgb('' @ show_int (red c) @ '','' @ show_int (green c) @ '','' @
           show_int (blue c) @ '')'')"

record Fill =
  color :: Color

text \<open>\<^verbatim>\<open>Fill(Color::Defaults color)\<close> and \<^verbatim>\<open>Fill(Color color = Color::Transparent)\<close>.\<close>

definition Fill_of :: "Defaults \<Rightarrow> Fill" where
  "Fill_of c = \<lparr>color = Color_of c\<rparr>"

definition Fill_default :: Fill where
  "Fill_default = \<lparr>color = Color_of Transparent\<rparr>"

definition Fill_toString :: "Fill \<Rightarrow> string" where
  "Fill_toString f = attribute ''fill'' (Color_toString (color f)) []"

record Stroke =
  width :: real
  color :: Color
  nonScaling :: bool

text \<open>\<^verbatim>\<open>Stroke(double width = -1, Color color = Color::Transparent, bool nonScalingStroke = false)\<close>.\<close>

definition Stroke_new :: "real \<Rightarrow> Color \<Rightarrow> bool \<Rightarrow> Stroke" where
  "Stroke_new w c nonScalingStroke = \<lparr>width = w, color = c, nonScaling = nonScalingStroke\<rparr>"

definition Stroke_default :: Stroke where
  "Stroke_default = Stroke_new (- 1) (Color_of Transparent) False"

definition Stroke_toString :: "(real \<Rightarrow> string) \<Rightarrow> Stroke \<Rightarrow> string" where
  "Stroke_toString fmt s =
     (if Stroke.width s < 0 then []
      else attribute ''stroke-width'' (fmt (Stroke.width s)) [] @
           attribute ''stroke'' (Color_toString (Stroke.color s)) [] @
           (if nonScaling s then attribute ''vector-effect'' ''non-scaling-stroke'' [] else []))"

record Font =
  font_size :: real
  family :: string

definition Font_default :: Font where
  "Font_default = \<lparr>font_size = 12, family = ''Verdana''\<rparr>"

definition Font_toString :: "(real \<Rightarrow> string) \<Rightarrow> Font \<Rightarrow> string" where
  "Font_toString fmt f =
     attribute ''font-size'' (fmt (font_size f)) [] @ attribute ''font-family'' (family f) []"

subsection \<open>The shapes\<close>

text \<open>The data of the base class: every shape owns a fill and a stroke.\<close>

record Shape =
  fill :: Fill
  stroke :: Stroke

text \<open>The text \<^verbatim>\<open>x,y \<close> of every point in turn, as the iterations over point lists write it.\<close>

definition points_text :: "(real \<Rightarrow> string) \<Rightarrow> Point list \<Rightarrow> string" where
  "points_text fmt pts = concat (map (\<lambda>p. fmt (x p) @ '','' @ fmt (y p) @ '' '') pts)"

text \<open>\<^verbatim>\<open>point.x += offset.x; point.y += offset.y;\<close>\<close>

definition Point_offset :: "Point \<Rightarrow> Point \<Rightarrow> Point" where
  "Point_offset p offset = p\<lparr>x := x p + x offset, y := y p + y offset\<rparr>"

record Circle = Shape +
  center :: Point
  radius :: real

text \<open>\<^verbatim>\<open>Circle(center, diameter, fill, stroke)\<close>.\<close>

definition Circle_new :: "Point \<Rightarrow> real \<Rightarrow> Fill \<Rightarrow> Stroke \<Rightarrow> Circle" where
  "Circle_new c diameter f s = \<lparr>fill = f, stroke = s, center = c, radius = diameter / 2\<rparr>"

definition Circle_toString :: "(real \<Rightarrow> string) \<Rightarrow> Circle \<Rightarrow> string" where
  "Circle_toString fmt c =
     elemStart ''circle'' @ attribute ''cx'' (fmt (x (center c))) [] @
     attribute ''cy'' (fmt (y (center c))) [] @
     attribute ''r'' (fmt (radius c)) [] @ Fill_toString (fill c) @
     Stroke_toString fmt (stroke c) @ emptyElemEnd"


definition Circle_MinMax :: "Circle \<Rightarrow> Rect" where
  "Circle_MinMax c =
     Rect_of \<lparr>x = x (center c) - radius c, y = y (center c) - radius c\<rparr>
       (radius c * 2) (radius c * 2)"

record Elipse = Shape +
  center :: Point
  radius_width :: real
  radius_height :: real

definition Elipse_new :: "Point \<Rightarrow> real \<Rightarrow> real \<Rightarrow> Fill \<Rightarrow> Stroke \<Rightarrow> Elipse" where
  "Elipse_new c w h f s =
     \<lparr>fill = f, stroke = s, center = c, radius_width = w / 2, radius_height = h / 2\<rparr>"

definition Elipse_toString :: "(real \<Rightarrow> string) \<Rightarrow> Elipse \<Rightarrow> string" where
  "Elipse_toString fmt e =
     elemStart ''ellipse'' @ attribute ''cx'' (fmt (x (Elipse.center e))) [] @
     attribute ''cy'' (fmt (y (Elipse.center e))) [] @
     attribute ''rx'' (fmt (radius_width e)) [] @
     attribute ''ry'' (fmt (radius_height e)) [] @
     Fill_toString (fill e) @ Stroke_toString fmt (stroke e) @ emptyElemEnd"


definition Elipse_MinMax :: "Elipse \<Rightarrow> Rect" where
  "Elipse_MinMax e =
     Rect_of \<lparr>x = x (Elipse.center e) - radius_width e, y = y (Elipse.center e) - radius_height e\<rparr>
       (radius_width e * 2) (radius_height e * 2)"

record Rectangle = Shape +
  edge :: Point
  width :: real
  height :: real

definition Rectangle_new :: "Point \<Rightarrow> real \<Rightarrow> real \<Rightarrow> Fill \<Rightarrow> Stroke \<Rightarrow> Rectangle" where
  "Rectangle_new e w h f s = \<lparr>fill = f, stroke = s, edge = e, width = w, height = h\<rparr>"

definition Rectangle_toString :: "(real \<Rightarrow> string) \<Rightarrow> Rectangle \<Rightarrow> string" where
  "Rectangle_toString fmt r =
     elemStart ''rect'' @ attribute ''x'' (fmt (x (edge r))) [] @
     attribute ''y'' (fmt (y (edge r))) [] @
     attribute ''width'' (fmt (Rectangle.width r)) [] @
     attribute ''height'' (fmt (Rectangle.height r)) [] @
     Fill_toString (fill r) @ Stroke_toString fmt (stroke r) @ emptyElemEnd"


definition Rectangle_MinMax :: "Rectangle \<Rightarrow> Rect" where
  "Rectangle_MinMax r = Rect_of (edge r) (Rectangle.width r) (Rectangle.height r)"

record Line = Shape +
  start_point :: Point
  end_point :: Point


definition Line_toString :: "(real \<Rightarrow> string) \<Rightarrow> Line \<Rightarrow> string" where
  "Line_toString fmt l =
     elemStart ''line'' @ attribute ''x1'' (fmt (x (start_point l))) [] @
     attribute ''y1'' (fmt (y (start_point l))) [] @
     attribute ''x2'' (fmt (x (end_point l))) [] @
     attribute ''y2'' (fmt (y (end_point l))) [] @
     Stroke_toString fmt (stroke l) @ emptyElemEnd"


definition Line_MinMax :: "Line \<Rightarrow> Rect" where
  "Line_MinMax l = Rect_include_Point (Rect_of (start_point l) 0 0) (end_point l)"

record Polygon = Shape +
  points :: "Point list"


text \<open>\<^verbatim>\<open>operator<<(Point const &point)\<close>.\<close>

definition Polygon_append :: "Polygon \<Rightarrow> Point \<Rightarrow> Polygon" where
  "Polygon_append pg point = pg\<lparr>points := points pg @ [point]\<rparr>"

definition Polygon_toString :: "(real \<Rightarrow> string) \<Rightarrow> Polygon \<Rightarrow> string" where
  "Polygon_toString fmt pg =
     elemStart ''polygon'' @ ''points=\"'' @ points_text fmt (points pg) @ ''\" '' @
     Fill_toString (fill pg) @ Stroke_toString fmt (stroke pg) @ emptyElemEnd"


definition Polygon_MinMax :: "Polygon \<Rightarrow> Rect" where
  "Polygon_MinMax pg =
     (case points pg of
        [] \<Rightarrow> Rect_default
      | p0 # _ \<Rightarrow> include_Points (Rect_of p0 0 0) (points pg))"

record Path = Shape +
  paths :: "Point list list"

definition Path_startNewSubPath :: "Path \<Rightarrow> Path" where
  "Path_startNewSubPath p =
     (if paths p = [] \<or> 0 < length (last (paths p)) then p\<lparr>paths := paths p @ [[]]\<rparr> else p)"

text \<open>\<^verbatim>\<open>Path(fill, stroke)\<close>; \<^verbatim>\<open>Path(stroke)\<close> is the same with the fill of
  \<^verbatim>\<open>Color::Transparent\<close>. The body of both calls \<^verbatim>\<open>startNewSubPath()\<close>.\<close>

definition Path_new :: "Fill \<Rightarrow> Stroke \<Rightarrow> Path" where
  "Path_new f s = Path_startNewSubPath \<lparr>fill = f, stroke = s, paths = []\<rparr>"

text \<open>\<^verbatim>\<open>operator<<(Point const &point)\<close>: \<^verbatim>\<open>paths.back()\<close> is not checked.\<close>

definition Path_append :: "Path \<Rightarrow> Point \<Rightarrow> error + Path" where
  "Path_append p point =
     (if paths p = [] then Inl UncheckedAccess
      else Inr (p\<lparr>paths := butlast (paths p) @ [last (paths p) @ [point]]\<rparr>))"

definition subpath_text :: "(real \<Rightarrow> string) \<Rightarrow> Point list \<Rightarrow> string" where
  "subpath_text fmt subpath =
     (if subpath = [] then [] else ''M'' @ points_text fmt subpath @ ''z '')"

definition Path_toString :: "(real \<Rightarrow> string) \<Rightarrow> Path \<Rightarrow> string" where
  "Path_toString fmt p =
     elemStart ''path'' @ ''d=\"'' @ concat (map (subpath_text fmt) (paths p)) @ ''\" '' @
     ''fill-rule=\"evenodd\" '' @
     Fill_toString (fill p) @ Stroke_toString fmt (stroke p) @ emptyElemEnd"


text \<open>\<^verbatim>\<open>Path::MinMax\<close>: \<^verbatim>\<open>paths.front().front()\<close> is read with no test of the first
  subpath.\<close>

definition Path_MinMax :: "Path \<Rightarrow> error + Rect" where
  "Path_MinMax p =
     (case paths p of
        [] \<Rightarrow> Inr Rect_default
      | first # _ \<Rightarrow>
          (case first of
             [] \<Rightarrow> Inl UncheckedAccess
           | p0 # _ \<Rightarrow>
               Inr (fold (\<lambda>path rtn. include_Points rtn path) (paths p) (Rect_of p0 0 0))))"

record Polyline = Shape +
  points :: "Point list"

text \<open>\<^verbatim>\<open>Polyline(points, fill, stroke)\<close>; the other two constructors leave the points empty.\<close>

definition Polyline_new :: "Point list \<Rightarrow> Fill \<Rightarrow> Stroke \<Rightarrow> Polyline" where
  "Polyline_new pts f s = \<lparr>fill = f, stroke = s, points = pts\<rparr>"

definition Polyline_append :: "Polyline \<Rightarrow> Point \<Rightarrow> Polyline" where
  "Polyline_append pl point = pl\<lparr>points := Polyline.points pl @ [point]\<rparr>"

definition Polyline_toString :: "(real \<Rightarrow> string) \<Rightarrow> Polyline \<Rightarrow> string" where
  "Polyline_toString fmt pl =
     elemStart ''polyline'' @ ''points=\"'' @ points_text fmt (Polyline.points pl) @ ''\" '' @
     Fill_toString (fill pl) @ Stroke_toString fmt (stroke pl) @ emptyElemEnd"

definition Polyline_offset :: "Polyline \<Rightarrow> Point \<Rightarrow> Polyline" where
  "Polyline_offset pl offset =
     pl\<lparr>points := map (\<lambda>p. Point_offset p offset) (Polyline.points pl)\<rparr>"

definition Polyline_MinMax :: "Polyline \<Rightarrow> Rect" where
  "Polyline_MinMax pl =
     (case Polyline.points pl of
        [] \<Rightarrow> Rect_default
      | p0 # _ \<Rightarrow> include_Points (Rect_of p0 0 0) (Polyline.points pl))"

record Text = Shape +
  origin :: Point
  content :: string
  font :: Font

definition Text_new :: "Point \<Rightarrow> string \<Rightarrow> Fill \<Rightarrow> Font \<Rightarrow> Stroke \<Rightarrow> Text" where
  "Text_new p c f fnt s = \<lparr>fill = f, stroke = s, origin = p, content = c, font = fnt\<rparr>"

definition Text_toString :: "(real \<Rightarrow> string) \<Rightarrow> Text \<Rightarrow> string" where
  "Text_toString fmt t =
     elemStart ''text'' @ attribute ''x'' (fmt (x (Text.origin t))) [] @
     attribute ''y'' (fmt (y (Text.origin t))) [] @
     Fill_toString (fill t) @ Stroke_toString fmt (stroke t) @ Font_toString fmt (font t) @
     ''>'' @ content t @ elemEnd ''text''"


definition Text_MinMax :: "Text \<Rightarrow> Rect" where
  "Text_MinMax t = Rect_of (Text.origin t) 0 0"

subsection \<open>The sample charting class\<close>

record LineChart = Shape +
  axis_stroke :: Stroke
  margin :: Dimensions
  scale :: real
  polylines :: "Polyline list"

text \<open>\<^verbatim>\<open>LineChart(margin, scale, axis_stroke)\<close>: the base class is default-constructed.\<close>

definition LineChart_new :: "Dimensions \<Rightarrow> real \<Rightarrow> Stroke \<Rightarrow> LineChart" where
  "LineChart_new m sc ax =
     \<lparr>fill = Fill_default, stroke = Stroke_default, axis_stroke = ax, margin = m, scale = sc,
      polylines = []\<rparr>"

text \<open>\<^verbatim>\<open>operator<<(Polyline const &polyline)\<close>.\<close>

definition LineChart_append :: "LineChart \<Rightarrow> Polyline \<Rightarrow> LineChart" where
  "LineChart_append lc polyline =
     (if Polyline.points polyline = [] then lc
      else lc\<lparr>polylines := polylines lc @ [polyline]\<rparr>)"

text \<open>One round of the loop of \<^verbatim>\<open>getDimensions\<close>: four tests, each dereferencing the
  optionals it reads.\<close>

definition getDimensions_step ::
  "Polyline \<Rightarrow> Point optional \<times> Point optional \<Rightarrow> error + (Point optional \<times> Point optional)" where
  "getDimensions_step pl mm =
     bind_err (optional_arrow (getMinPoint (Polyline.points pl))) (\<lambda>a.
     bind_err (optional_arrow (fst mm)) (\<lambda>m.
     let mn1 = (if x a < x m then (fst mm)\<lparr>type := m\<lparr>x := x a\<rparr>\<rparr> else fst mm) in
     bind_err (optional_arrow mn1) (\<lambda>m1.
     let mn2 = (if y a < y m1 then mn1\<lparr>type := m1\<lparr>y := y a\<rparr>\<rparr> else mn1) in
     bind_err (optional_arrow (getMaxPoint (Polyline.points pl))) (\<lambda>b.
     bind_err (optional_arrow (snd mm)) (\<lambda>n.
     let mx1 = (if x b > x n then (snd mm)\<lparr>type := n\<lparr>x := x b\<rparr>\<rparr> else snd mm) in
     bind_err (optional_arrow mx1) (\<lambda>n1.
     let mx2 = (if y b > y n1 then mx1\<lparr>type := n1\<lparr>y := y b\<rparr>\<rparr> else mx1) in
     Inr (mn2, mx2)))))))"

fun getDimensions_loop ::
  "Polyline list \<Rightarrow> Point optional \<times> Point optional \<Rightarrow> error + (Point optional \<times> Point optional)" where
  "getDimensions_loop [] mm = Inr mm"
| "getDimensions_loop (pl # pls) mm =
     bind_err (getDimensions_step pl mm) (getDimensions_loop pls)"

definition LineChart_getDimensions :: "LineChart \<Rightarrow> error + Dimensions optional" where
  "LineChart_getDimensions lc =
     (case polylines lc of
        [] \<Rightarrow> Inr (optional_none (Dimensions_combined 0))
      | pl0 # _ \<Rightarrow>
          bind_err
            (getDimensions_loop (polylines lc)
               (getMinPoint (Polyline.points pl0), getMaxPoint (Polyline.points pl0)))
            (\<lambda>mm.
               bind_err (optional_arrow (snd mm)) (\<lambda>n.
               bind_err (optional_arrow (fst mm)) (\<lambda>m.
               Inr (optional_of
                 \<lparr>Dimensions.width = x n - x m, Dimensions.height = y n - y m\<rparr>)))))"

text \<open>\<^verbatim>\<open>axisString()\<close>; the overload that takes a layout has the same body.\<close>

definition LineChart_axisString :: "(real \<Rightarrow> string) \<Rightarrow> LineChart \<Rightarrow> error + string" where
  "LineChart_axisString fmt lc =
     bind_err (LineChart_getDimensions lc) (\<lambda>dims.
       if optional_not dims then Inr []
       else
         bind_err (optional_arrow dims) (\<lambda>d.
         let w = Dimensions.width d * 1.1;
             h = Dimensions.height d * 1.1;
             m = margin lc;
             axis =
               Polyline_append
                 (Polyline_append
                    (Polyline_append (Polyline_new [] (Fill_of Transparent) (axis_stroke lc))
                       \<lparr>x = Dimensions.width m, y = Dimensions.height m + h\<rparr>)
                    \<lparr>x = Dimensions.width m, y = Dimensions.height m\<rparr>)
                 \<lparr>x = Dimensions.width m + w, y = Dimensions.height m\<rparr>
         in Inr (Polyline_toString fmt axis)))"

text \<open>The circles at the vertices of a shifted polyline; \<^verbatim>\<open>getDimensions()\<close> is called
  and dereferenced for every point.\<close>

fun LineChart_vertices :: "LineChart \<Rightarrow> Point list \<Rightarrow> error + Circle list" where
  "LineChart_vertices lc [] = Inr []"
| "LineChart_vertices lc (pt # pts) =
     bind_err (LineChart_getDimensions lc) (\<lambda>dims.
     bind_err (optional_arrow dims) (\<lambda>d.
     bind_err (LineChart_vertices lc pts) (\<lambda>vs.
     Inr (Circle_new pt (Dimensions.height d / 30) (Fill_of Black) Stroke_default # vs))))"

text \<open>\<^verbatim>\<open>vectorToString\<close>, at the type of circles.\<close>

definition vectorToString :: "(real \<Rightarrow> string) \<Rightarrow> Circle list \<Rightarrow> string" where
  "vectorToString fmt collection = concat (map (Circle_toString fmt) collection)"

definition LineChart_polylineToString ::
  "(real \<Rightarrow> string) \<Rightarrow> LineChart \<Rightarrow> Polyline \<Rightarrow> error + string" where
  "LineChart_polylineToString fmt lc polyline =
     (let shifted_polyline =
            Polyline_offset polyline
              \<lparr>x = Dimensions.width (margin lc), y = Dimensions.height (margin lc)\<rparr>
      in bind_err (LineChart_vertices lc (Polyline.points shifted_polyline)) (\<lambda>vertices.
           Inr (Polyline_toString fmt shifted_polyline @ vectorToString fmt vertices)))"

fun LineChart_polylines_text ::
  "(real \<Rightarrow> string) \<Rightarrow> LineChart \<Rightarrow> Polyline list \<Rightarrow> error + string" where
  "LineChart_polylines_text fmt lc [] = Inr []"
| "LineChart_polylines_text fmt lc (pl # pls) =
     bind_err (LineChart_polylineToString fmt lc pl) (\<lambda>s.
     bind_err (LineChart_polylines_text fmt lc pls) (\<lambda>rest. Inr (s @ rest)))"

definition LineChart_toString :: "(real \<Rightarrow> string) \<Rightarrow> LineChart \<Rightarrow> error + string" where
  "LineChart_toString fmt lc =
     (if polylines lc = [] then Inr []
      else
        bind_err (LineChart_polylines_text fmt lc (polylines lc)) (\<lambda>ret.
        bind_err (LineChart_axisString fmt lc) (\<lambda>ax. Inr (ret @ ax))))"


definition LineChart_MinMax :: "LineChart \<Rightarrow> Rect" where
  "LineChart_MinMax lc = Rect_default"

subsection \<open>A shape behind the base-class interface\<close>

text \<open>A \<^verbatim>\<open>Shape const &\<close> is one of the classes derived in the header; the virtual
  calls dispatch on it.\<close>

datatype shape_obj =
    CircleObj Circle
  | ElipseObj Elipse
  | RectangleObj Rectangle
  | LineObj Line
  | PolygonObj Polygon
  | PathObj Path
  | PolylineObj Polyline
  | TextObj Text
  | LineChartObj LineChart

fun Shape_toString :: "(real \<Rightarrow> string) \<Rightarrow> shape_obj \<Rightarrow> error + string" where
  "Shape_toString fmt (CircleObj c) = Inr (Circle_toString fmt c)"
| "Shape_toString fmt (ElipseObj e) = Inr (Elipse_toString fmt e)"
| "Shape_toString fmt (RectangleObj r) = Inr (Rectangle_toString fmt r)"
| "Shape_toString fmt (LineObj l) = Inr (Line_toString fmt l)"
| "Shape_toString fmt (PolygonObj pg) = Inr (Polygon_toString fmt pg)"
| "Shape_toString fmt (PathObj p) = Inr (Path_toString fmt p)"
| "Shape_toString fmt (PolylineObj pl) = Inr (Polyline_toString fmt pl)"
| "Shape_toString fmt (TextObj t) = Inr (Text_toString fmt t)"
| "Shape_toString fmt (LineChartObj lc) = LineChart_toString fmt lc"


fun Shape_MinMax :: "shape_obj \<Rightarrow> error + Rect" where
  "Shape_MinMax (CircleObj c) = Inr (Circle_MinMax c)"
| "Shape_MinMax (ElipseObj e) = Inr (Elipse_MinMax e)"
| "Shape_MinMax (RectangleObj r) = Inr (Rectangle_MinMax r)"
| "Shape_MinMax (LineObj l) = Inr (Line_MinMax l)"
| "Shape_MinMax (PolygonObj pg) = Inr (Polygon_MinMax pg)"
| "Shape_MinMax (PathObj p) = Path_MinMax p"
| "Shape_MinMax (PolylineObj pl) = Inr (Polyline_MinMax pl)"
| "Shape_MinMax (TextObj t) = Inr (Text_MinMax t)"
| "Shape_MinMax (LineChartObj lc) = Inr (LineChart_MinMax lc)"

subsection \<open>Document\<close>

record Document =
  file_name :: string
  layout :: Layout
  body_nodes_str :: string
  region :: Rect

text \<open>\<^verbatim>\<open>Document(file_name, layout)\<close>.\<close>

definition Document_new :: "string \<Rightarrow> Layout \<Rightarrow> Document" where
  "Document_new fname l =
     \<lparr>file_name = fname, layout = l, body_nodes_str = [], region = Rect_default\<rparr>"

text \<open>\<^verbatim>\<open>operator<<(Shape const &shape)\<close>.\<close>

definition Document_append :: "(real \<Rightarrow> string) \<Rightarrow> Document \<Rightarrow> shape_obj \<Rightarrow> error + Document" where
  "Document_append fmt d shape =
     bind_err (Shape_toString fmt shape) (\<lambda>s.
     let d1 = d\<lparr>body_nodes_str := body_nodes_str d @ s\<rparr> in
     bind_err (Shape_MinMax shape) (\<lambda>r.
     Inr (d1\<lparr>region := Rect_include_Rect (region d1) r\<rparr>)))"

text \<open>A chain \<^verbatim>\<open>doc << s1 << s2 << ...\<close>.\<close>

fun Document_appends :: "(real \<Rightarrow> string) \<Rightarrow> Document \<Rightarrow> shape_obj list \<Rightarrow> error + Document" where
  "Document_appends fmt d [] = Inr d"
| "Document_appends fmt d (shape # shapes) =
     bind_err (Document_append fmt d shape) (\<lambda>d1. Document_appends fmt d1 shapes)"

definition Document_toString :: "(real \<Rightarrow> string) \<Rightarrow> (real \<Rightarrow> string) \<Rightarrow> Document \<Rightarrow> string" where
  "Document_toString fmt to_string d =
     ''<?xml '' @ attribute ''version'' ''1.0'' [] @ attribute ''standalone'' ''no'' [] @
     ''?>'' @ [CHR 0x0A] @ ''<!DOCTYPE svg PUBLIC \"-//W3C//DTD SVG 1.1//EN\" '' @
     ''\"http://www.w3.org/Graphics/SVG/1.1/DTD/svg11.dtd\">'' @ [CHR 0x0A] @ ''<svg '' @
     attribute ''width'' (fmt (Rect_width (region d))) ''px'' @
     attribute ''height'' (fmt (Rect_height (region d))) ''px'' @
     attribute ''xmlns'' ''http://www.w3.org/2000/svg'' [] @
     attribute ''viewBox''
       (to_string (x (minPt (region d))) @ '' '' @ to_string (y (minPt (region d))) @ '' '' @
        to_string (Rect_width (region d)) @ '' '' @ to_string (Rect_height (region d))) [] @
     attribute ''version'' ''1.1'' [] @ ''>'' @ [CHR 0x0A] @ body_nodes_str d @ elemEnd ''svg''"

subsection \<open>Notions used to state the properties\<close>

text \<open>The smallest axis-aligned rectangle that covers a non-empty list of points: per axis,
  the minimum and the maximum of the coordinates.\<close>

definition bounding_Rect :: "Point list \<Rightarrow> Rect" where
  "bounding_Rect pts =
     \<lparr>minPt = \<lparr>x = Min (x ` set pts), y = Min (y ` set pts)\<rparr>,
      maxPt = \<lparr>x = Max (x ` set pts), y = Max (y ` set pts)\<rparr>\<rparr>"


text \<open>The two corners of the bounding box of every shape of a list, for the shapes whose
  bounding box is computed.\<close>

definition bbox_corners :: "shape_obj list \<Rightarrow> Point list" where
  "bbox_corners shapes =
     concat (map (\<lambda>s. case Shape_MinMax s of Inl e \<Rightarrow> [] | Inr r \<Rightarrow> [minPt r, maxPt r]) shapes)"




text \<open>The two operations that change the subpaths of a path, and a run of them.\<close>

datatype Path_op = AddPoint Point | StartNewSubPath

fun Path_apply :: "Path \<Rightarrow> Path_op \<Rightarrow> error + Path" where
  "Path_apply p (AddPoint point) = Path_append p point"
| "Path_apply p StartNewSubPath = Inr (Path_startNewSubPath p)"

fun Path_run :: "Path \<Rightarrow> Path_op list \<Rightarrow> error + Path" where
  "Path_run p [] = Inr p"
| "Path_run p (opn # ops) = bind_err (Path_apply p opn) (\<lambda>p1. Path_run p1 ops)"

text \<open>The shape of the subpath list of a path: there is a subpath, and every subpath before
  the last one has a point.\<close>

definition subpaths_ok :: "Point list list \<Rightarrow> bool" where
  "subpaths_ok pss = (pss \<noteq> [] \<and> (\<forall>sp\<in>set (butlast pss). sp \<noteq> []))"

section \<open>Properties\<close>

subsection \<open>Sequencing of fallible steps\<close>

lemma bind_err_Inr: "bind_err (Inr v) g = g v"
  by (simp add: bind_err_def)

lemma bind_err_Inl: "bind_err (Inl e) g = Inl e"
  by (simp add: bind_err_def)

subsection \<open>Inclusion of points into a rectangle\<close>

lemma Rect_include_Point_eq:
  "Rect_include_Point r p =
     \<lparr>minPt = \<lparr>x = min (x (minPt r)) (x p), y = min (y (minPt r)) (y p)\<rparr>,
      maxPt = \<lparr>x = max (x (maxPt r)) (x p), y = max (y (maxPt r)) (y p)\<rparr>\<rparr>"
  by (simp add: Rect_include_Point_def Let_def min_def max_def)

lemma include_Points_Nil: "include_Points r [] = r"
  by (simp add: include_Points_def)

lemma include_Points_Cons:
  "include_Points r (p # pts) = include_Points (Rect_include_Point r p) pts"
  by (simp add: include_Points_def)

lemma include_Points_fold:
  "include_Points r pts =
     \<lparr>minPt = \<lparr>x = fold min (map x pts) (x (minPt r)), y = fold min (map y pts) (y (minPt r))\<rparr>,
      maxPt = \<lparr>x = fold max (map x pts) (x (maxPt r)), y = fold max (map y pts) (y (maxPt r))\<rparr>\<rparr>"
proof (induction pts arbitrary: r)
  case Nil
  show ?case by (simp add: include_Points_Nil)
next
  case (Cons p pts)
  show ?case
    unfolding include_Points_Cons Cons.IH [of "Rect_include_Point r p"]
    by (simp add: Rect_include_Point_eq min.commute max.commute)
qed

lemma fold_min_Min: "fold min (map f pts) (a::real) = Min (insert a (f ` set pts))"
  using Min.set_eq_fold [of a "map f pts"] by simp

lemma fold_max_Max: "fold max (map f pts) (a::real) = Max (insert a (f ` set pts))"
  using Max.set_eq_fold [of a "map f pts"] by simp

lemma include_Points_bounding:
  "include_Points (Rect_of p0 0 0) pts = bounding_Rect (p0 # pts)"
  by (simp add: include_Points_fold Rect_of_def bounding_Rect_def fold_min_Min fold_max_Max)

lemma include_Points_default:
  "include_Points Rect_default pts = bounding_Rect (Point_default # pts)"
  by (simp add: include_Points_fold Rect_default_def Point_default_def bounding_Rect_def fold_min_Min fold_max_Max)

lemma bounding_Rect_set: "set ps = set qs \<Longrightarrow> bounding_Rect ps = bounding_Rect qs"
  by (simp add: bounding_Rect_def)

text \<open>
  Claim C2, as the code has it. A \<^verbatim>\<open>Rect()\<close> starts with both corners at the origin, so
  after a non-empty sequence of points has been included one by one, its corners are, per
  axis, the minimum and the maximum over the included points together with the origin
  \<open>(0, 0)\<close>. When the rectangle is constructed from the first point of the sequence
  (\<^verbatim>\<open>Rect(p)\<close>, as the \<^verbatim>\<open>MinMax\<close> functions do), the corners are the minimum and the
  maximum over the included points alone. The result is the same for every ordering of
  the sequence.
\<close>
theorem Rect_include_points_spec:
  "pts \<noteq> [] \<Longrightarrow>
     include_Points Rect_default pts = bounding_Rect (Point_default # pts) \<and>
     include_Points (Rect_of (hd pts) 0 0) pts = bounding_Rect pts \<and>
     (\<forall>pts'. mset pts' = mset pts \<longrightarrow>
        include_Points Rect_default pts' = include_Points Rect_default pts)"
proof (intro conjI allI impI)
  show "include_Points Rect_default pts = bounding_Rect (Point_default # pts)"
    by (rule include_Points_default)
next
  assume "pts \<noteq> []"
  then have "set (hd pts # pts) = set pts" by (cases pts) auto
  then show "include_Points (Rect_of (hd pts) 0 0) pts = bounding_Rect pts"
    unfolding include_Points_bounding by (rule bounding_Rect_set)
next
  fix pts' :: "Point list"
  assume "mset pts' = mset pts"
  then have "set (Point_default # pts') = set (Point_default # pts)"
    using mset_eq_setD [of pts' pts] by simp
  then show "include_Points Rect_default pts' = include_Points Rect_default pts"
    unfolding include_Points_default by (rule bounding_Rect_set)
qed

text \<open>The statement of C2 at the points \<open>(5, 5)\<close> and \<open>(-1, 2)\<close>.\<close>
theorem Rect_include_points_spec_witness:
  "include_Points Rect_default [\<lparr>x = 5, y = 5\<rparr>, \<lparr>x = - 1, y = 2\<rparr>] =
     \<lparr>minPt = \<lparr>x = - 1, y = 0\<rparr>, maxPt = \<lparr>x = 5, y = 5\<rparr>\<rparr> \<and>
   include_Points (Rect_of \<lparr>x = 5, y = 5\<rparr> 0 0) [\<lparr>x = 5, y = 5\<rparr>, \<lparr>x = - 1, y = 2\<rparr>] =
     \<lparr>minPt = \<lparr>x = - 1, y = 2\<rparr>, maxPt = \<lparr>x = 5, y = 5\<rparr>\<rparr> \<and>
   include_Points Rect_default [\<lparr>x = - 1, y = 2\<rparr>, \<lparr>x = 5, y = 5\<rparr>] =
     include_Points Rect_default [\<lparr>x = 5, y = 5\<rparr>, \<lparr>x = - 1, y = 2\<rparr>]"
proof -
  have h: "[\<lparr>x = 5, y = 5\<rparr>, \<lparr>x = - 1, y = 2\<rparr>] \<noteq> ([] :: Point list)"
    by simp
  have m: "mset [\<lparr>x = - 1, y = 2\<rparr>, \<lparr>x = 5, y = 5\<rparr>] = mset [\<lparr>x = 5, y = 5\<rparr>, \<lparr>x = - 1, y = (2::real)\<rparr>]"
    by (simp add: add.commute)
  from Rect_include_points_spec [OF h] m show ?thesis
    by (simp add: bounding_Rect_def Point_default_def)
qed

text \<open>
  Claim C2 as it is written fails: including the single point \<open>(5, 5)\<close> into a fresh
  \<^verbatim>\<open>Rect()\<close> leaves the lower corner at \<open>(0, 0)\<close>, which is not the minimum over
  the included points.
\<close>
theorem Rect_include_origin_counterexample:
  "minPt (include_Points Rect_default [\<lparr>x = 5, y = 5\<rparr>]) \<noteq>
     \<lparr>x = Min (x ` set [\<lparr>x = 5, y = 5\<rparr>]), y = Min (y ` set [\<lparr>x = 5, y = 5\<rparr>])\<rparr>"
  by (simp add: include_Points_def Rect_include_Point_def Rect_default_def Let_def)

subsection \<open>The extremal points of a sequence\<close>

lemma getMinPoint_fold:
  "fold getMinPoint_step pts m = \<lparr>x = fold min (map x pts) (x m), y = fold min (map y pts) (y m)\<rparr>"
proof (induction pts arbitrary: m)
  case Nil
  show ?case by simp
next
  case (Cons p pts)
  have "getMinPoint_step p m = \<lparr>x = min (x m) (x p), y = min (y m) (y p)\<rparr>"
    by (simp add: getMinPoint_step_def Let_def min_def)
  then show ?case
    by (simp add: Cons.IH min.commute)
qed

lemma getMaxPoint_fold:
  "fold getMaxPoint_step pts m = \<lparr>x = fold max (map x pts) (x m), y = fold max (map y pts) (y m)\<rparr>"
proof (induction pts arbitrary: m)
  case Nil
  show ?case by simp
next
  case (Cons p pts)
  have "getMaxPoint_step p m = \<lparr>x = max (x m) (x p), y = max (y m) (y p)\<rparr>"
    by (simp add: getMaxPoint_step_def Let_def max_def)
  then show ?case
    by (simp add: Cons.IH max.commute)
qed

lemma getMinPoint_Cons:
  "getMinPoint (p # pts) =
     optional_of \<lparr>x = Min (x ` set (p # pts)), y = Min (y ` set (p # pts))\<rparr>"
  unfolding getMinPoint_def list.case getMinPoint_fold fold_min_Min
  by (simp add: insert_absorb)

lemma getMaxPoint_Cons:
  "getMaxPoint (p # pts) =
     optional_of \<lparr>x = Max (x ` set (p # pts)), y = Max (y ` set (p # pts))\<rparr>"
  unfolding getMaxPoint_def list.case getMaxPoint_fold fold_max_Max
  by (simp add: insert_absorb)

text \<open>
  Claim C7. \<^verbatim>\<open>getMinPoint\<close> and \<^verbatim>\<open>getMaxPoint\<close> return an invalid optional exactly
  when the sequence of points is empty; otherwise the optional holds the point whose
  coordinates are, per axis, the minimum (maximum) over the whole sequence. Dereferencing
  an invalid optional with \<^verbatim>\<open>operator->\<close> raises the absent-value error and yields no
  value.
\<close>
theorem getMinMaxPoint_spec:
  "valid (getMinPoint pts) = (pts \<noteq> []) \<and> valid (getMaxPoint pts) = (pts \<noteq> []) \<and>
   (pts \<noteq> [] \<longrightarrow>
      optional_arrow (getMinPoint pts) = Inr \<lparr>x = Min (x ` set pts), y = Min (y ` set pts)\<rparr> \<and>
      optional_arrow (getMaxPoint pts) = Inr \<lparr>x = Max (x ` set pts), y = Max (y ` set pts)\<rparr>) \<and>
   (pts = [] \<longrightarrow>
      optional_arrow (getMinPoint pts) = Inl AbsentValue \<and>
      optional_arrow (getMaxPoint pts) = Inl AbsentValue) \<and>
   (\<not> valid opt \<longrightarrow> optional_arrow opt = Inl AbsentValue)"
proof (cases pts)
  case Nil
  then show ?thesis
    by (simp add: getMinPoint_def getMaxPoint_def optional_none_def optional_arrow_def)
next
  case (Cons p ps)
  show ?thesis
    unfolding Cons getMinPoint_Cons getMaxPoint_Cons
    by (simp add: optional_of_def optional_arrow_def)
qed

text \<open>The statement of C7 at the points \<open>(1, 4)\<close>, \<open>(3, 2)\<close> and at the empty sequence.\<close>
theorem getMinMaxPoint_spec_witness:
  "optional_arrow (getMinPoint [\<lparr>x = 1, y = 4\<rparr>, \<lparr>x = 3, y = 2\<rparr>]) = Inr \<lparr>x = 1, y = 2\<rparr> \<and>
   optional_arrow (getMaxPoint [\<lparr>x = 1, y = 4\<rparr>, \<lparr>x = 3, y = 2\<rparr>]) = Inr \<lparr>x = 3, y = 4\<rparr> \<and>
   \<not> valid (getMinPoint []) \<and> \<not> valid (getMaxPoint []) \<and>
   optional_arrow (getMinPoint []) = Inl AbsentValue \<and>
   optional_arrow (getMaxPoint []) = Inl AbsentValue \<and>
   optional_arrow (optional_none Point_default) = Inl AbsentValue"
  using getMinMaxPoint_spec [of "[\<lparr>x = 1, y = 4\<rparr>, \<lparr>x = 3, y = 2\<rparr>]" "optional_none Point_default"]
    getMinMaxPoint_spec [of "[]" "optional_none Point_default"]
  by (simp add: optional_none_def)

subsection \<open>The conversion of coordinates\<close>

text \<open>
  Claim C6. \<^verbatim>\<open>translateX\<close> is \<open>width - (x + offset.x) * scale\<close> when the origin is
  \<^verbatim>\<open>TopRight\<close> or \<^verbatim>\<open>BottomRight\<close> and \<open>(offset.x + x) * scale\<close> otherwise;
  \<^verbatim>\<open>translateY\<close> is \<open>height - (y + offset.y) * scale\<close> when the origin is
  \<^verbatim>\<open>BottomLeft\<close> or \<^verbatim>\<open>BottomRight\<close> and \<open>(offset.y + y) * scale\<close> otherwise. For a
  layout with origin \<^verbatim>\<open>TopLeft\<close>, scale 1 and offset zero, both are the identity.
\<close>
theorem translate_spec:
  "translateX a l =
     (if Layout.origin l \<in> {TopRight, BottomRight}
      then Dimensions.width (dimensions l) - (a + x (origin_offset l)) * Layout.scale l
      else (x (origin_offset l) + a) * Layout.scale l) \<and>
   translateY b l =
     (if Layout.origin l \<in> {BottomLeft, BottomRight}
      then Dimensions.height (dimensions l) - (b + y (origin_offset l)) * Layout.scale l
      else (y (origin_offset l) + b) * Layout.scale l) \<and>
   (Layout.origin l = TopLeft \<and> Layout.scale l = 1 \<and> origin_offset l = \<lparr>x = 0, y = 0\<rparr> \<longrightarrow>
      translateX a l = a \<and> translateY b l = b)"
  by (auto simp add: translateX_def translateY_def)

text \<open>The statement of C6 at a \<^verbatim>\<open>TopLeft\<close> layout and at a \<^verbatim>\<open>BottomRight\<close> layout of
  scale 2.\<close>
theorem translate_spec_witness:
  "translateX 7 \<lparr>dimensions = \<lparr>Dimensions.width = 400, height = 300\<rparr>, scale = 1, origin = TopLeft,
      origin_offset = \<lparr>x = 0, y = 0\<rparr>\<rparr> = 7 \<and>
   translateY (- 3) \<lparr>dimensions = \<lparr>Dimensions.width = 400, height = 300\<rparr>, scale = 1, origin = TopLeft,
      origin_offset = \<lparr>x = 0, y = 0\<rparr>\<rparr> = - 3 \<and>
   translateX 7 \<lparr>dimensions = \<lparr>Dimensions.width = 400, height = 300\<rparr>, scale = 2, origin = BottomRight,
      origin_offset = \<lparr>x = 1, y = 5\<rparr>\<rparr> = 384 \<and>
   translateY 7 \<lparr>dimensions = \<lparr>Dimensions.width = 400, height = 300\<rparr>, scale = 2, origin = BottomRight,
      origin_offset = \<lparr>x = 1, y = 5\<rparr>\<rparr> = 276"
  using translate_spec [of 7 "\<lparr>dimensions = \<lparr>Dimensions.width = 400, height = 300\<rparr>, scale = 1, origin = TopLeft,
      origin_offset = \<lparr>x = 0, y = 0\<rparr>\<rparr>" "- 3"]
    translate_spec [of 7 "\<lparr>dimensions = \<lparr>Dimensions.width = 400, height = 300\<rparr>, scale = 2, origin = BottomRight,
      origin_offset = \<lparr>x = 1, y = 5\<rparr>\<rparr>" 7]
  by simp


subsection \<open>Fill and Stroke fragments\<close>

text \<open>
  Claim C5, as the code has it. A fill whose colour is transparent serialises to the
  attribute \<^verbatim>\<open>fill="transparent" \<close>: \<^verbatim>\<open>Fill::toString\<close> always writes the attribute, and
  \<^verbatim>\<open>Color::toString\<close> writes the word \<^verbatim>\<open>transparent\<close> for the transparent colour.
\<close>
theorem Fill_transparent_toString:
  "transparent (Fill.color f) \<Longrightarrow> Fill_toString f = ''fill=\"transparent\" ''"
  by (simp add: Fill_toString_def attribute_def Color_toString_def)

text \<open>The statement of C5 at \<^verbatim>\<open>Fill(Color::Transparent)\<close>.\<close>
theorem Fill_transparent_toString_witness:
  "transparent (Fill.color (Fill_of Transparent)) \<and>
   Fill_toString (Fill_of Transparent) = ''fill=\"transparent\" ''"
proof -
  have h: "transparent (Fill.color (Fill_of Transparent))"
    by (simp add: Fill_of_def)
  from Fill_transparent_toString [OF h] h show ?thesis by simp
qed

text \<open>
  Claim C5 as it is written fails: the default fill is transparent and its serialisation
  is not the empty fragment.
\<close>
theorem Fill_transparent_not_empty:
  "transparent (Fill.color Fill_default) \<and> Fill_toString Fill_default \<noteq> []"
  by (simp add: Fill_default_def Fill_toString_def attribute_def Color_toString_def)

text \<open>
  Claim C8. A stroke constructed with a negative width serialises to the empty fragment.
  A stroke of width 0 serialises to a non-empty fragment: a \<^verbatim>\<open>stroke-width\<close> attribute
  whose value is the text of the number 0, followed by a \<^verbatim>\<open>stroke\<close> attribute with the
  colour (and the \<^verbatim>\<open>vector-effect\<close> attribute when the stroke is non-scaling). With the
  stream writing 0 as \<^verbatim>\<open>0\<close>, the fragment starts \<^verbatim>\<open>stroke-width="0" stroke="\<close>.
\<close>
theorem Stroke_toString_spec:
  "(w < 0 \<longrightarrow> Stroke_toString fmt (Stroke_new w c ns) = []) \<and>
   Stroke_toString fmt (Stroke_new 0 c ns) =
     ''stroke-width=\"'' @ fmt 0 @ ''\" stroke=\"'' @ Color_toString c @ ''\" '' @
     (if ns then ''vector-effect=\"non-scaling-stroke\" '' else []) \<and>
   Stroke_toString fmt (Stroke_new 0 c ns) \<noteq> [] \<and>
   (fmt 0 = ''0'' \<longrightarrow>
      Stroke_toString fmt (Stroke_new 0 c ns) =
        ''stroke-width=\"0\" stroke=\"'' @ Color_toString c @ ''\" '' @
        (if ns then ''vector-effect=\"non-scaling-stroke\" '' else []))"
  by (simp add: Stroke_toString_def Stroke_new_def attribute_def)

text \<open>The statement of C8 at the widths \<open>-1\<close> and \<open>0\<close>, with a red stroke.\<close>
theorem Stroke_toString_spec_witness:
  "Stroke_toString (\<lambda>v. if v = 0 then ''0'' else ''1'') (Stroke_new (- 1) (Color_of Red) False) = [] \<and>
   Stroke_toString (\<lambda>v. if v = 0 then ''0'' else ''1'') (Stroke_new 0 (Color_of Red) False) =
     ''stroke-width=\"0\" stroke=\"rgb(255,0,0)\" ''"
proof -
  have c: "Color_toString (Color_rgb 255 0 0) = ''rgb(255,0,0)''"
    by code_simp
  show ?thesis
    using Stroke_toString_spec [of "- 1" "\<lambda>v. if v = 0 then ''0'' else ''1''" "Color_of Red" False]
    by (simp add: c)
qed

subsection \<open>The subpaths of a path\<close>

text \<open>
  Claim C4 says that \<^verbatim>\<open>MinMax\<close> of a path to which no point was ever added raises the
  absent-value error. The code does not: a constructed path holds one empty subpath, the
  test \<^verbatim>\<open>paths.empty()\<close> is false, and \<^verbatim>\<open>paths.front().front()\<close> reads the first point
  of an empty vector with no check.
\<close>
theorem Path_MinMax_fresh:
  "Path_MinMax (Path_new f s) = Inl UncheckedAccess"
  by (simp add: Path_MinMax_def Path_new_def Path_startNewSubPath_def)

lemma subpaths_ok_snoc:
  "subpaths_ok (pss @ [sp]) = (\<forall>a\<in>set pss. a \<noteq> [])"
  by (simp add: subpaths_ok_def)

lemma subpaths_ok_new: "subpaths_ok (paths (Path_new f s))"
  by (simp add: subpaths_ok_def Path_new_def Path_startNewSubPath_def)

lemma subpaths_ok_start:
  assumes "subpaths_ok (paths p)"
  shows "subpaths_ok (paths (Path_startNewSubPath p))"
proof -
  from assms obtain pss sp where ps: "paths p = pss @ [sp]"
    by (cases "paths p" rule: rev_cases) (simp_all add: subpaths_ok_def)
  from assms have "\<forall>a\<in>set pss. a \<noteq> []"
    by (simp add: ps subpaths_ok_snoc)
  then show ?thesis
    by (simp add: Path_startNewSubPath_def ps subpaths_ok_def butlast_append)
qed

lemma subpaths_ok_append:
  assumes "subpaths_ok (paths p)"
  shows "Path_append p pt = Inr (p\<lparr>paths := butlast (paths p) @ [last (paths p) @ [pt]]\<rparr>)"
    and "subpaths_ok (butlast (paths p) @ [last (paths p) @ [pt]])"
  using assms by (simp_all add: subpaths_ok_def Path_append_def)


lemma Path_run_ok:
  "subpaths_ok (paths p) \<Longrightarrow> \<exists>p'. Path_run p ops = Inr p' \<and> subpaths_ok (paths p')"
proof (induction ops arbitrary: p)
  case Nil
  then show ?case by simp
next
  case (Cons opn ops)
  show ?case
  proof (cases opn)
    case (AddPoint pt)
    let ?q = "p\<lparr>paths := butlast (paths p) @ [last (paths p) @ [pt]]\<rparr>"
    have "subpaths_ok (paths ?q)"
      using subpaths_ok_append(2) [OF Cons.prems] by simp
    from Cons.IH [OF this] show ?thesis
      by (simp add: AddPoint subpaths_ok_append(1) [OF Cons.prems] bind_err_def)
  next
    case StartNewSubPath
    from Cons.IH [OF subpaths_ok_start [OF Cons.prems]] show ?thesis
      by (simp add: StartNewSubPath bind_err_def)
  qed
qed

lemma startNewSubPath_idem:
  "Path_startNewSubPath (Path_startNewSubPath p) = Path_startNewSubPath p"
  by (simp add: Path_startNewSubPath_def)

lemma startNewSubPath_funpow:
  "(Path_startNewSubPath ^^ Suc n) p = Path_startNewSubPath p"
  by (induction n) (simp_all add: startNewSubPath_idem)

lemma subpaths_ok_empties:
  assumes "subpaths_ok pss"
  shows "length (filter (\<lambda>sp. sp = []) pss) \<le> 1"
proof -
  from assms obtain qss sp where ps: "pss = qss @ [sp]"
    by (cases pss rule: rev_cases) (simp_all add: subpaths_ok_def)
  from assms have "\<forall>a\<in>set qss. a \<noteq> []"
    by (simp add: ps subpaths_ok_snoc)
  then have "filter (\<lambda>sp. sp = []) qss = []"
    by (simp add: filter_empty_conv)
  then show ?thesis
    by (simp add: ps)
qed

lemma startNewSubPath_paths:
  "paths (Path_startNewSubPath p) = paths p \<or> paths (Path_startNewSubPath p) = paths p @ [[]]"
  by (simp add: Path_startNewSubPath_def)


text \<open>
  Claim C9. After the construction of a path and any finite sequence of point appends and
  \<^verbatim>\<open>startNewSubPath\<close> calls, the run has returned a path whose subpath list is
  non-empty and in which every subpath but the last has a point. Hence appending a point
  extends the existing last subpath, and \<^verbatim>\<open>startNewSubPath\<close> called any number of times
  in a row does what one call does: it adds at most one empty subpath, and the list holds
  at most one empty subpath.
\<close>
theorem Path_subpaths_invariant:
  "\<exists>p. Path_run (Path_new f s) ops = Inr p \<and>
       paths p \<noteq> [] \<and> (\<forall>sp\<in>set (butlast (paths p)). sp \<noteq> []) \<and>
       Path_append p pt = Inr (p\<lparr>paths := butlast (paths p) @ [last (paths p) @ [pt]]\<rparr>) \<and>
       (Path_startNewSubPath ^^ Suc n) p = Path_startNewSubPath p \<and>
       (paths (Path_startNewSubPath p) = paths p \<or>
        paths (Path_startNewSubPath p) = paths p @ [[]]) \<and>
       length (filter (\<lambda>sp. sp = []) (paths (Path_startNewSubPath p))) \<le> 1"
proof -
  from Path_run_ok [OF subpaths_ok_new] obtain p
    where run: "Path_run (Path_new f s) ops = Inr p" and ok: "subpaths_ok (paths p)"
    by blast
  from ok have ne: "paths p \<noteq> []" and bl: "\<forall>sp\<in>set (butlast (paths p)). sp \<noteq> []"
    by (simp_all add: subpaths_ok_def)
  note app = subpaths_ok_append(1) [OF ok, of pt]
  note pow = startNewSubPath_funpow [of n p]
  note alt = startNewSubPath_paths [of p]
  note cnt = subpaths_ok_empties [OF subpaths_ok_start [OF ok]]
  from run ne bl app pow alt cnt show ?thesis
    by (intro exI [of _ p] conjI)
qed

lemma Path_new_eq: "Path_new f s = \<lparr>fill = f, stroke = s, paths = [[]]\<rparr>"
  by (simp add: Path_new_def Path_startNewSubPath_def)

lemma startNewSubPath_eval:
  "Path_startNewSubPath \<lparr>fill = f, stroke = s, paths = pss\<rparr> =
     \<lparr>fill = f, stroke = s, paths = (if pss = [] \<or> last pss \<noteq> [] then pss @ [[]] else pss)\<rparr>"
  by (simp add: Path_startNewSubPath_def)

lemma Path_append_eval:
  "Path_append \<lparr>fill = f, stroke = s, paths = ps # pss\<rparr> pt =
     Inr \<lparr>fill = f, stroke = s, paths = butlast (ps # pss) @ [last (ps # pss) @ [pt]]\<rparr>"
  by (simp add: Path_append_def)

text \<open>The statement of C9 at a run of four operations on a fresh path.\<close>
theorem Path_subpaths_invariant_witness:
  "\<exists>p. Path_run (Path_new Fill_default Stroke_default)
          [StartNewSubPath, AddPoint \<lparr>x = 1, y = 2\<rparr>, StartNewSubPath, StartNewSubPath] = Inr p \<and>
       paths p = [[\<lparr>x = 1, y = 2\<rparr>], []] \<and>
       Path_append p \<lparr>x = 3, y = 4\<rparr> = Inr (p\<lparr>paths := [[\<lparr>x = 1, y = 2\<rparr>], [\<lparr>x = 3, y = 4\<rparr>]]\<rparr>) \<and>
       paths (Path_startNewSubPath p) = paths p"
proof -
  let ?ops = "[StartNewSubPath, AddPoint \<lparr>x = 1, y = 2\<rparr>, StartNewSubPath, StartNewSubPath]"
  let ?q = "\<lparr>fill = Fill_default, stroke = Stroke_default, paths = [[\<lparr>x = 1, y = 2\<rparr>], []]\<rparr>"
  have r: "Path_run (Path_new Fill_default Stroke_default) ?ops = Inr ?q"
    by (simp add: Path_new_eq startNewSubPath_eval Path_append_eval bind_err_Inr)
  from Path_subpaths_invariant [of Fill_default Stroke_default ?ops "\<lparr>x = 3, y = 4\<rparr>" 0]
  obtain p where a: "Path_run (Path_new Fill_default Stroke_default) ?ops = Inr p"
    and b: "Path_append p \<lparr>x = 3, y = 4\<rparr> =
          Inr (p\<lparr>paths := butlast (paths p) @ [last (paths p) @ [\<lparr>x = 3, y = 4\<rparr>]]\<rparr>)"
    by (elim exE conjE)
  from a have pe: "p = ?q"
    unfolding r by simp
  have c: "butlast (paths ?q) @ [last (paths ?q) @ [\<lparr>x = 3, y = 4\<rparr>]] =
      [[\<lparr>x = 1, y = 2\<rparr>], [\<lparr>x = 3, y = 4\<rparr>]]"
    by simp
  have d: "paths (Path_startNewSubPath ?q) = paths ?q"
    by (simp add: startNewSubPath_eval)
  have e: "paths ?q = [[\<lparr>x = 1, y = 2\<rparr>], []]"
    by simp
  from a b d e show ?thesis
    unfolding pe c by (intro exI [of _ ?q] conjI)
qed

subsection \<open>The layout of a document\<close>

lemma Document_append_layout:
  "Document_append fmt (d\<lparr>layout := l\<rparr>) shape =
     map_sum id (\<lambda>d'. d'\<lparr>layout := l\<rparr>) (Document_append fmt d shape)"
  by (simp add: Document_append_def bind_err_def Let_def split: sum.splits)

lemma Document_appends_layout:
  "Document_appends fmt (d\<lparr>layout := l\<rparr>) shapes =
     map_sum id (\<lambda>d'. d'\<lparr>layout := l\<rparr>) (Document_appends fmt d shapes)"
proof (induction shapes arbitrary: d)
  case Nil
  show ?case by simp
next
  case (Cons shape shapes)
  show ?case
  proof (cases "Document_append fmt d shape")
    case (Inl e)
    then show ?thesis
      by (simp add: Document_append_layout bind_err_Inl)
  next
    case (Inr d1)
    then show ?thesis
      by (simp add: Document_append_layout bind_err_Inr Cons.IH)
  qed
qed

lemma Document_toString_layout:
  "Document_toString fmt to_string (d\<lparr>layout := l\<rparr>) = Document_toString fmt to_string d"
  by (simp add: Document_toString_def)

lemma Document_new_layout: "Document_new fname l2 = (Document_new fname l1)\<lparr>layout := l2\<rparr>"
  by (simp add: Document_new_def)

text \<open>
  Claim C10. Two documents constructed with the same file name and given the same sequence
  of shape appends, with any two layouts, have the same outcome: either both chains of
  appends fail in the same way, or both documents serialise to the same text. The layout
  stored in a document has no influence on \<^verbatim>\<open>toString\<close>.
\<close>
theorem Document_toString_ignores_layout:
  "map_sum id (Document_toString fmt to_string) (Document_appends fmt (Document_new fname l1) shapes) =
   map_sum id (Document_toString fmt to_string) (Document_appends fmt (Document_new fname l2) shapes)"
proof -
  have "Document_appends fmt (Document_new fname l2) shapes =
      map_sum id (\<lambda>d'. d'\<lparr>layout := l2\<rparr>) (Document_appends fmt (Document_new fname l1) shapes)"
    unfolding Document_new_layout [of fname l2 l1] by (rule Document_appends_layout)
  then show ?thesis
    by (cases "Document_appends fmt (Document_new fname l1) shapes")
      (simp_all add: Document_toString_layout)
qed


text \<open>The statement of C10 at one circle and two layouts that differ in the origin.\<close>
theorem Document_toString_ignores_layout_witness:
  "map_sum id (Document_toString (\<lambda>v. []) (\<lambda>v. []))
     (Document_appends (\<lambda>v. []) (Document_new ''a.svg'' Layout_default)
        [CircleObj (Circle_new \<lparr>x = 5, y = 5\<rparr> 2 Fill_default Stroke_default)]) =
   map_sum id (Document_toString (\<lambda>v. []) (\<lambda>v. []))
     (Document_appends (\<lambda>v. []) (Document_new ''a.svg'' (Layout_default\<lparr>Layout.origin := TopRight\<rparr>))
        [CircleObj (Circle_new \<lparr>x = 5, y = 5\<rparr> 2 Fill_default Stroke_default)]) \<and>
   Layout_default \<noteq> Layout_default\<lparr>Layout.origin := TopRight\<rparr>"
proof -
  have "Layout_default \<noteq> Layout_default\<lparr>Layout.origin := TopRight\<rparr>"
    by (simp add: Layout_default_def)
  with Document_toString_ignores_layout [of "\<lambda>v. []" "\<lambda>v. []" "''a.svg''" Layout_default
      "[CircleObj (Circle_new \<lparr>x = 5, y = 5\<rparr> 2 Fill_default Stroke_default)]"
      "Layout_default\<lparr>Layout.origin := TopRight\<rparr>"]
  show ?thesis by (intro conjI)
qed

subsection \<open>Bounding boxes of moved shapes\<close>





















subsection \<open>The region of a document\<close>

lemma Document_append_Inr:
  "Shape_toString fmt shape = Inr t \<Longrightarrow> Shape_MinMax shape = Inr r \<Longrightarrow>
     Document_append fmt d shape =
       Inr (d\<lparr>body_nodes_str := body_nodes_str d @ t, region := Rect_include_Rect (region d) r\<rparr>)"
  by (simp add: Document_append_def bind_err_Inr Let_def)

lemma Document_append_InrD:
  "Document_append fmt d shape = Inr d' \<Longrightarrow>
     \<exists>t r. Shape_toString fmt shape = Inr t \<and> Shape_MinMax shape = Inr r \<and>
           region d' = Rect_include_Rect (region d) r"
  by (auto simp add: Document_append_def bind_err_def Let_def split: sum.splits)

lemma include_Points_append:
  "include_Points r (ps @ qs) = include_Points (include_Points r ps) qs"
  by (simp add: include_Points_def)

lemma Rect_include_Rect_Points:
  "Rect_include_Rect r r' = include_Points r [minPt r', maxPt r']"
  by (simp add: Rect_include_Rect_def include_Points_def)

lemma bbox_corners_Cons:
  "Shape_MinMax shape = Inr r \<Longrightarrow>
     bbox_corners (shape # shapes) = [minPt r, maxPt r] @ bbox_corners shapes"
  by (simp add: bbox_corners_def)

lemma Document_appends_region:
  "Document_appends fmt d shapes = Inr d' \<Longrightarrow>
     region d' = include_Points (region d) (bbox_corners shapes) \<and>
     (\<forall>shape\<in>set shapes. (\<exists>t. Shape_toString fmt shape = Inr t) \<and> (\<exists>r. Shape_MinMax shape = Inr r))"
proof (induction shapes arbitrary: d)
  case Nil
  then show ?case by (simp add: bbox_corners_def include_Points_Nil)
next
  case (Cons shape shapes)
  from Cons.prems obtain d1 where a: "Document_append fmt d shape = Inr d1"
    and b: "Document_appends fmt d1 shapes = Inr d'"
    by (cases "Document_append fmt d shape") (simp_all add: bind_err_def)
  from Document_append_InrD [OF a] obtain t r
    where t: "Shape_toString fmt shape = Inr t" and r: "Shape_MinMax shape = Inr r"
      and reg: "region d1 = Rect_include_Rect (region d) r"
    by blast
  from Cons.IH [OF b] have ih1: "region d' = include_Points (region d1) (bbox_corners shapes)"
    and ih2: "\<forall>shape\<in>set shapes. (\<exists>t. Shape_toString fmt shape = Inr t) \<and> (\<exists>r. Shape_MinMax shape = Inr r)"
    by simp_all
  have "region d' = include_Points (region d) (bbox_corners (shape # shapes))"
    unfolding ih1 reg bbox_corners_Cons [OF r] include_Points_append Rect_include_Rect_Points ..
  with t r ih2 show ?case by simp
qed

lemma Document_appends_total:
  "\<forall>shape\<in>set shapes. (\<exists>t. Shape_toString fmt shape = Inr t) \<and> (\<exists>r. Shape_MinMax shape = Inr r) \<Longrightarrow>
     \<exists>d'. Document_appends fmt d shapes = Inr d'"
proof (induction shapes arbitrary: d)
  case Nil
  show ?case by simp
next
  case (Cons shape shapes)
  from Cons.prems obtain t r
    where t: "Shape_toString fmt shape = Inr t" and r: "Shape_MinMax shape = Inr r"
    by auto
  from Cons.prems have "\<forall>shape\<in>set shapes. (\<exists>t. Shape_toString fmt shape = Inr t) \<and> (\<exists>r. Shape_MinMax shape = Inr r)"
    by simp
  from Cons.IH [OF this] show ?case
    by (simp add: Document_append_Inr [OF t r] bind_err_Inr)
qed

lemma set_bbox_corners:
  "set (bbox_corners shapes) =
     (\<Union>s\<in>set shapes. case Shape_MinMax s of Inl e \<Rightarrow> {} | Inr r \<Rightarrow> {minPt r, maxPt r})"
  by (induction shapes) (auto simp add: bbox_corners_def split: sum.splits)


text \<open>
  Claim C1, as the code has it. The region of a document starts as \<^verbatim>\<open>Rect()\<close> with both
  corners at the origin, so after a chain of appends that all return, the region is the
  smallest rectangle that covers the origin \<open>(0, 0)\<close> and the two corners of the bounding
  box of every appended shape. Appending the same shapes in any other order returns as
  well and gives the same region.
\<close>
theorem Document_region_spec:
  "Document_appends fmt (Document_new fname l) shapes = Inr d \<Longrightarrow>
     region d = bounding_Rect (Point_default # bbox_corners shapes) \<and>
     (\<forall>shapes'. mset shapes' = mset shapes \<longrightarrow>
        (\<exists>d'. Document_appends fmt (Document_new fname l) shapes' = Inr d' \<and>
              region d' = region d))"
proof (intro conjI allI impI)
  assume run: "Document_appends fmt (Document_new fname l) shapes = Inr d"
  have new: "region (Document_new fname l) = Rect_default"
    by (simp add: Document_new_def)
  from Document_appends_region [OF run]
  have reg: "region d = include_Points Rect_default (bbox_corners shapes)"
    and ok: "\<forall>shape\<in>set shapes. (\<exists>t. Shape_toString fmt shape = Inr t) \<and> (\<exists>r. Shape_MinMax shape = Inr r)"
    unfolding new by simp_all
  from reg show b: "region d = bounding_Rect (Point_default # bbox_corners shapes)"
    by (simp only: include_Points_default)
  fix shapes' :: "shape_obj list"
  assume "mset shapes' = mset shapes"
  then have eq: "set shapes' = set shapes" by (rule mset_eq_setD)
  from ok have "\<forall>shape\<in>set shapes'. (\<exists>t. Shape_toString fmt shape = Inr t) \<and> (\<exists>r. Shape_MinMax shape = Inr r)"
    unfolding eq .
  from Document_appends_total [OF this] obtain d'
    where run': "Document_appends fmt (Document_new fname l) shapes' = Inr d'"
    by blast
  from Document_appends_region [OF run']
  have "region d' = include_Points Rect_default (bbox_corners shapes')"
    unfolding new by simp
  then have "region d' = bounding_Rect (Point_default # bbox_corners shapes')"
    by (simp only: include_Points_default)
  moreover have "set (Point_default # bbox_corners shapes') = set (Point_default # bbox_corners shapes)"
    by (simp add: set_bbox_corners eq)
  then have "bounding_Rect (Point_default # bbox_corners shapes') =
      bounding_Rect (Point_default # bbox_corners shapes)"
    by (rule bounding_Rect_set)
  ultimately have "region d' = region d"
    unfolding b by simp
  with run' show "\<exists>d'. Document_appends fmt (Document_new fname l) shapes' = Inr d' \<and> region d' = region d"
    by blast
qed

text \<open>
  Claim C1 as it is written fails: after the single rectangle from \<open>(5, 5)\<close> to
  \<open>(10, 10)\<close> is appended to a fresh document, the region reaches from \<open>(0, 0)\<close> to
  \<open>(10, 10)\<close>, which is not the bounding box of the rectangle.
\<close>
theorem Document_region_origin_counterexample:
  "map_sum id region
     (Document_appends (\<lambda>v. []) (Document_new [] Layout_default)
        [RectangleObj (Rectangle_new \<lparr>x = 5, y = 5\<rparr> 5 5 Fill_default Stroke_default)]) =
     Inr \<lparr>minPt = \<lparr>x = 0, y = 0\<rparr>, maxPt = \<lparr>x = 10, y = 10\<rparr>\<rparr> \<and>
   Shape_MinMax (RectangleObj (Rectangle_new \<lparr>x = 5, y = 5\<rparr> 5 5 Fill_default Stroke_default)) =
     Inr \<lparr>minPt = \<lparr>x = 5, y = 5\<rparr>, maxPt = \<lparr>x = 10, y = 10\<rparr>\<rparr> \<and>
   map_sum id region
     (Document_appends (\<lambda>v. []) (Document_new [] Layout_default)
        [RectangleObj (Rectangle_new \<lparr>x = 5, y = 5\<rparr> 5 5 Fill_default Stroke_default)]) \<noteq>
   Shape_MinMax (RectangleObj (Rectangle_new \<lparr>x = 5, y = 5\<rparr> 5 5 Fill_default Stroke_default))"
proof -
  let ?r = "RectangleObj (Rectangle_new \<lparr>x = 5, y = 5\<rparr> 5 5 Fill_default Stroke_default)"
  have m: "Shape_MinMax ?r = Inr \<lparr>minPt = \<lparr>x = 5, y = 5\<rparr>, maxPt = \<lparr>x = 10, y = 10\<rparr>\<rparr>"
    by (simp add: Rectangle_MinMax_def Rectangle_new_def Rect_of_def)
  have t: "Shape_toString (\<lambda>v. []) ?r = Inr (Rectangle_toString (\<lambda>v. []) (Rectangle_new \<lparr>x = 5, y = 5\<rparr> 5 5 Fill_default Stroke_default))"
    by simp
  have "map_sum id region (Document_appends (\<lambda>v. []) (Document_new [] Layout_default) [?r]) =
      Inr \<lparr>minPt = \<lparr>x = 0, y = 0\<rparr>, maxPt = \<lparr>x = 10, y = 10\<rparr>\<rparr>"
    unfolding Document_appends.simps Document_append_Inr [OF t m] bind_err_Inr
    by (simp add: Document_new_def Rect_default_def Rect_include_Rect_def Rect_include_Point_eq)
  with m show ?thesis by simp
qed

text \<open>The statement of C1 at a circle and a rectangle, appended in both orders.\<close>
theorem Document_region_spec_witness:
  "map_sum id region
     (Document_appends (\<lambda>v. []) (Document_new [] Layout_default)
        [CircleObj (Circle_new \<lparr>x = 5, y = 5\<rparr> 2 Fill_default Stroke_default),
         RectangleObj (Rectangle_new \<lparr>x = - 3, y = 1\<rparr> 1 1 Fill_default Stroke_default)]) =
     Inr \<lparr>minPt = \<lparr>x = - 3, y = 0\<rparr>, maxPt = \<lparr>x = 6, y = 6\<rparr>\<rparr> \<and>
   map_sum id region
     (Document_appends (\<lambda>v. []) (Document_new [] Layout_default)
        [RectangleObj (Rectangle_new \<lparr>x = - 3, y = 1\<rparr> 1 1 Fill_default Stroke_default),
         CircleObj (Circle_new \<lparr>x = 5, y = 5\<rparr> 2 Fill_default Stroke_default)]) =
     Inr \<lparr>minPt = \<lparr>x = - 3, y = 0\<rparr>, maxPt = \<lparr>x = 6, y = 6\<rparr>\<rparr>"
proof -
  let ?c = "CircleObj (Circle_new \<lparr>x = 5, y = 5\<rparr> 2 Fill_default Stroke_default)"
  let ?r = "RectangleObj (Rectangle_new \<lparr>x = - 3, y = 1\<rparr> 1 1 Fill_default Stroke_default)"
  let ?D = "Document_new [] Layout_default"
  have mc: "Shape_MinMax ?c = Inr \<lparr>minPt = \<lparr>x = 4, y = 4\<rparr>, maxPt = \<lparr>x = 6, y = 6\<rparr>\<rparr>"
    by (simp add: Circle_MinMax_def Circle_new_def Rect_of_def)
  have mr: "Shape_MinMax ?r = Inr \<lparr>minPt = \<lparr>x = - 3, y = 1\<rparr>, maxPt = \<lparr>x = - 2, y = 2\<rparr>\<rparr>"
    by (simp add: Rectangle_MinMax_def Rectangle_new_def Rect_of_def)
  have "\<forall>shape\<in>set [?c, ?r]. (\<exists>t. Shape_toString (\<lambda>v. []) shape = Inr t) \<and> (\<exists>r. Shape_MinMax shape = Inr r)"
    by simp
  from Document_appends_total [OF this] obtain d
    where run: "Document_appends (\<lambda>v. []) ?D [?c, ?r] = Inr d"
    by blast
  have cs: "bbox_corners [?c, ?r] = [\<lparr>x = 4, y = 4\<rparr>, \<lparr>x = 6, y = 6\<rparr>, \<lparr>x = - 3, y = 1\<rparr>, \<lparr>x = - 2, y = 2\<rparr>]"
    unfolding bbox_corners_def by (simp add: mc mr del: Shape_MinMax.simps)
  have ms: "mset [?r, ?c] = mset [?c, ?r]"
    by (simp add: add_mset_commute)
  from Document_region_spec [OF run]
  have reg: "region d = bounding_Rect (Point_default # bbox_corners [?c, ?r])"
    and perm: "\<exists>d'. Document_appends (\<lambda>v. []) ?D [?r, ?c] = Inr d' \<and> region d' = region d"
    using ms by blast+
  from reg have val: "region d = \<lparr>minPt = \<lparr>x = - 3, y = 0\<rparr>, maxPt = \<lparr>x = 6, y = 6\<rparr>\<rparr>"
    unfolding cs by (simp add: bounding_Rect_def Point_default_def)
  from perm obtain d' where run': "Document_appends (\<lambda>v. []) ?D [?r, ?c] = Inr d'"
    and eq: "region d' = region d"
    by blast
  show ?thesis
    unfolding run run' by (simp add: eq val)
qed

end
